theory Spec2Isabelle
  imports Complex_Main "HOL-Library.Multiset" "HOL-Library.Sublist"
begin

section \<open>Python primitives used by the monitor\<close>

text \<open>
  Python floats are modelled as \<^typ>\<open>real\<close>: the properties below depend on the order of
  the numbers only. The scaling by \<open>1024 * 1024\<close> is a scaling by a power of two, which
  binary floating point performs without rounding. Python integers are \<^typ>\<open>int\<close>
  (or \<^typ>\<open>nat\<close> for byte counts), and a Python \<open>str\<close> is a \<^typ>\<open>string\<close> whose
  elements stand for code points.
\<close>

text \<open>The slice \<open>xs[:k]\<close>: a negative \<open>k\<close> counts from the end of the list.\<close>

definition py_slice_to :: "'a list \<Rightarrow> int \<Rightarrow> 'a list" where
  "py_slice_to xs k =
     (if k < 0 then take (nat (int (length xs) + k)) xs else take (nat k) xs)"

text \<open>
  \<open>sorted(xs, key=f, reverse=True)\<close>: the list is reversed, sorted by a stable ascending
  sort, and reversed again, which is how the interpreter keeps equal keys in their
  original order.
\<close>

definition py_sorted_reverse :: "('a \<Rightarrow> 'k::linorder) \<Rightarrow> 'a list \<Rightarrow> 'a list" where
  "py_sorted_reverse f xs = rev (sort_key f (rev xs))"

section \<open>system_monitor.py: the process table\<close>

text \<open>The named tuple of \<open>memory_info\<close>; it has fields, so it is always truthy.\<close>

record pmem =
  rss :: nat
  vms :: nat

record proc_id =
  pid :: int
  name :: "string option"
  username :: "string option"

text \<open>
  What \<open>psutil.process_iter(attrs)\<close> yields as \<open>p.info\<close>: an attribute that could not
  be read is \<open>None\<close>.
\<close>

record pinfo = proc_id +
  cpu_times :: "real list option"
  memory_info :: "pmem option"

record cpu_time_record = proc_id +
  total_cpu_time :: real

record mem_range_record = proc_id +
  rss_mb :: real

subsection \<open>get_top_cpu_processes\<close>

fun processes_with_cpu_times :: "pinfo list \<Rightarrow> cpu_time_record list" where
  "processes_with_cpu_times [] = []"
| "processes_with_cpu_times (p # ps) =
     (case cpu_times p of
        None \<Rightarrow> processes_with_cpu_times ps
      | Some ts \<Rightarrow>
          if ts \<noteq> [] then
            \<lparr>pid = pid p, name = name p, username = username p,
             total_cpu_time = sum_list (take 2 ts)\<rparr> # processes_with_cpu_times ps
          else processes_with_cpu_times ps)"

definition get_top_cpu_processes :: "pinfo list \<Rightarrow> int \<Rightarrow> cpu_time_record list" where
  "get_top_cpu_processes table limit =
     py_slice_to (py_sorted_reverse total_cpu_time (processes_with_cpu_times table)) limit"

subsection \<open>get_memory_range_processes\<close>

fun matching_processes :: "real \<Rightarrow> real \<Rightarrow> pinfo list \<Rightarrow> mem_range_record list" where
  "matching_processes min_bytes max_bytes [] = []"
| "matching_processes min_bytes max_bytes (p # ps) =
     (case memory_info p of
        None \<Rightarrow> matching_processes min_bytes max_bytes ps
      | Some mem_info \<Rightarrow>
          if rss mem_info \<noteq> 0 then
            (if min_bytes \<le> real (rss mem_info) \<and> real (rss mem_info) \<le> max_bytes then
               \<lparr>pid = pid p, name = name p, username = username p,
                rss_mb = real (rss mem_info) / (1024 * 1024)\<rparr>
               # matching_processes min_bytes max_bytes ps
             else matching_processes min_bytes max_bytes ps)
          else matching_processes min_bytes max_bytes ps)"

definition get_memory_range_processes :: "pinfo list \<Rightarrow> real \<Rightarrow> real \<Rightarrow> mem_range_record list" where
  "get_memory_range_processes table min_mb max_mb =
     py_sorted_reverse rss_mb
       (matching_processes (min_mb * 1024 * 1024) (max_mb * 1024 * 1024) table)"

subsection \<open>get_system_info\<close>

datatype py_error =
  ValueError string
| KeyError
| IndexError
| TypeError
| OSError
| Exception string

datatype gauge = PyFloat real | PyInt int

text \<open>
  The outcome of each of the four reads that \<open>get_system_info\<close> performs, in the order
  of the source: the CPU percentage, the \<open>percent\<close> of the virtual memory, the \<open>percent\<close>
  of the disk usage of the root volume, and \<open>bytes_sent\<close> and \<open>bytes_recv\<close> of the
  network counters.
\<close>

record gauge_reads =
  read_cpu_percent :: "py_error + real"
  read_virtual_memory :: "py_error + real"
  read_disk_usage :: "py_error + real"
  read_net_io_counters :: "py_error + int \<times> int"

text \<open>
  The dictionary is an association list in insertion order. One \<open>try\<close> block covers the
  four reads, and its handler returns the empty dictionary.
\<close>

definition get_system_info :: "gauge_reads \<Rightarrow> (string \<times> gauge) list" where
  "get_system_info g =
     (case read_cpu_percent g of
        Inl e \<Rightarrow> []
      | Inr cpu_percent \<Rightarrow>
     (case read_virtual_memory g of
        Inl e \<Rightarrow> []
      | Inr memory_percent \<Rightarrow>
     (case read_disk_usage g of
        Inl e \<Rightarrow> []
      | Inr disk_percent \<Rightarrow>
     (case read_net_io_counters g of
        Inl e \<Rightarrow> []
      | Inr (bytes_sent, bytes_recv) \<Rightarrow>
          [(''cpu_percent'', PyFloat cpu_percent),
           (''memory_percent'', PyFloat memory_percent),
           (''disk_percent'', PyFloat disk_percent),
           (''bytes_sent'', PyInt bytes_sent),
           (''bytes_received'', PyInt bytes_recv)]))))"

section \<open>aimon.py\<close>

subsection \<open>Strings\<close>

text \<open>The characters that \<open>str.strip()\<close> removes, among the code points below 256.\<close>

definition py_isspace :: "char \<Rightarrow> bool" where
  "py_isspace c = (of_char c \<in> {9, 10, 11, 12, 13, 28, 29, 30, 31, 32, 133, 160 :: nat})"

definition py_strip :: "string \<Rightarrow> string" where
  "py_strip s = rev (dropWhile py_isspace (rev (dropWhile py_isspace s)))"

subsection \<open>Groq.__init__\<close>

record groq =
  api_key :: string
  base_url :: string

definition Groq_init :: "string \<Rightarrow> py_error + groq" where
  "Groq_init key =
     (if key = [] then Inl (ValueError ''API key is required'')
      else Inr \<lparr>api_key = py_strip key, base_url = ''https://api.groq.com/openai/v1''\<rparr>)"

definition initialize_client :: "string \<Rightarrow> py_error + groq" where
  "initialize_client key = Groq_init key"

subsection \<open>JSON values and subscripts\<close>

datatype json =
  JNull
| JBool bool
| JNum real
| JStr string
| JArr "json list"
| JObj "(string \<times> json) list"

text \<open>\<open>v[k]\<close> for a string key \<open>k\<close>.\<close>

fun getitem_key :: "json \<Rightarrow> string \<Rightarrow> py_error + json" where
  "getitem_key (JObj kvs) k = (case map_of kvs k of None \<Rightarrow> Inl KeyError | Some v \<Rightarrow> Inr v)"
| "getitem_key v k = Inl TypeError"

text \<open>
  \<open>v[0]\<close>: the first element of a list, the first character of a string; the keys of
  a decoded JSON object are strings, so \<open>0\<close> is never one of them.
\<close>

fun getitem_0 :: "json \<Rightarrow> py_error + json" where
  "getitem_0 (JArr []) = Inl IndexError"
| "getitem_0 (JArr (x # xs)) = Inr x"
| "getitem_0 (JStr []) = Inl IndexError"
| "getitem_0 (JStr (c # cs)) = Inr (JStr [c])"
| "getitem_0 (JObj kvs) = Inl KeyError"
| "getitem_0 v = Inl TypeError"

text \<open>\<open>d.get(k, default)\<close>; \<open>None\<close> when \<open>d\<close> is not a dictionary (AttributeError).\<close>

fun dict_get :: "json \<Rightarrow> string \<Rightarrow> json \<Rightarrow> json option" where
  "dict_get (JObj kvs) k d = Some (case map_of kvs k of None \<Rightarrow> d | Some v \<Rightarrow> v)"
| "dict_get v k d = None"

subsection \<open>Groq.chat_completions\<close>

text \<open>
  The HTTP library's response: \<open>resp_json\<close> is the outcome of \<open>response.json()\<close> (the
  text of the decoding error, or the decoded value), \<open>resp_lines\<close> what
  \<open>response.iter_lines\<close> yields. A request exception carries its text \<open>str(e)\<close> and
  possibly a response.
\<close>

record response =
  status_code :: nat
  resp_text :: string
  resp_json :: "string + json"
  resp_lines :: "string list"

record request_exception =
  exc_str :: string
  exc_response :: "response option"

datatype post_outcome = Raises request_exception | Returns response

datatype completion = Json json | Lines "string list"

text \<open>
  \<open>response.raise_for_status()\<close> raises an \<open>HTTPError\<close> holding the response for the
  status codes 400 to 599; its text is made by the library from the status, the reason
  and the URL, and is a parameter here.
\<close>

definition raise_for_status :: "(response \<Rightarrow> string) \<Rightarrow> response \<Rightarrow> request_exception + unit" where
  "raise_for_status http_error_msg r =
     (if 400 \<le> status_code r \<and> status_code r < 600
      then Inl \<lparr>exc_str = http_error_msg r, exc_response = Some r\<rparr>
      else Inr ())"

text \<open>
  The truth value of a response object is its \<open>ok\<close> property: true when
  \<open>raise_for_status\<close> would not raise.
\<close>

definition response_ok :: "response \<Rightarrow> bool" where
  "response_ok r = (case raise_for_status (\<lambda>_. []) r of Inl e \<Rightarrow> False | Inr u \<Rightarrow> True)"

text \<open>
  \<open>e.response.json() if e.response and e.response.text else {}\<close>; \<open>None\<close> when the
  decoding raises.
\<close>

definition error_details :: "request_exception \<Rightarrow> json option" where
  "error_details e =
     (case exc_response e of
        None \<Rightarrow> Some (JObj [])
      | Some r \<Rightarrow>
          if response_ok r \<and> resp_text r \<noteq> [] then
            (case resp_json r of Inl msg \<Rightarrow> None | Inr j \<Rightarrow> Some j)
          else Some (JObj []))"

text \<open>The inner \<open>try\<close>: any exception in it gives \<open>str(e)\<close>.\<close>

definition error_message :: "request_exception \<Rightarrow> json" where
  "error_message e =
     (case error_details e of
        None \<Rightarrow> JStr (exc_str e)
      | Some details \<Rightarrow>
     (case dict_get details ''error'' (JObj []) of
        None \<Rightarrow> JStr (exc_str e)
      | Some err \<Rightarrow>
     (case dict_get err ''message'' (JStr (exc_str e)) of
        None \<Rightarrow> JStr (exc_str e)
      | Some m \<Rightarrow> m)))"

text \<open>
  A value inside an f-string: a string is inserted as it is, any other value through
  Python's \<open>str\<close>, a parameter here.
\<close>

fun format_value :: "(json \<Rightarrow> string) \<Rightarrow> json \<Rightarrow> string" where
  "format_value py_str (JStr s) = s"
| "format_value py_str v = py_str v"

definition chat_completions ::
  "(json \<Rightarrow> string) \<Rightarrow> (response \<Rightarrow> string) \<Rightarrow> bool \<Rightarrow> post_outcome \<Rightarrow> py_error + completion" where
  "chat_completions py_str http_error_msg stream outcome =
     (case
        (case outcome of
           Raises e \<Rightarrow> Inl e
         | Returns r \<Rightarrow>
             (case raise_for_status http_error_msg r of
                Inl e \<Rightarrow> Inl e
              | Inr u \<Rightarrow>
                  if stream then Inr (Lines (resp_lines r))
                  else (case resp_json r of
                          Inl msg \<Rightarrow> Inl \<lparr>exc_str = msg, exc_response = None\<rparr>
                        | Inr j \<Rightarrow> Inr (Json j))))
      of
        Inl e \<Rightarrow> Inl (Exception (''Groq API Error: '' @ format_value py_str (error_message e)))
      | Inr v \<Rightarrow> Inr v)"

subsection \<open>get_ai_response_content\<close>

text \<open>\<open>response_json["choices"][0]["message"]["content"]\<close>\<close>

definition response_content :: "json \<Rightarrow> py_error + json" where
  "response_content response_json =
     (case getitem_key response_json ''choices'' of
        Inl e \<Rightarrow> Inl e
      | Inr choices \<Rightarrow>
     (case getitem_0 choices of
        Inl e \<Rightarrow> Inl e
      | Inr choice \<Rightarrow>
     (case getitem_key choice ''message'' of
        Inl e \<Rightarrow> Inl e
      | Inr message \<Rightarrow> getitem_key message ''content'')))"

text \<open>The \<open>try\<close> around the extraction catches \<open>KeyError\<close> and \<open>IndexError\<close> only.\<close>

definition extract_content :: "json \<Rightarrow> py_error + json" where
  "extract_content response_json =
     (case response_content response_json of
        Inl KeyError \<Rightarrow> Inl (Exception ''Malformed response from Groq API'')
      | Inl IndexError \<Rightarrow> Inl (Exception ''Malformed response from Groq API'')
      | Inl e \<Rightarrow> Inl e
      | Inr content \<Rightarrow> Inr content)"

text \<open>
  The whole function; \<open>chat_result\<close> is the outcome of the call of
  \<open>client.chat_completions\<close> with \<open>stream = False\<close>.
\<close>

definition get_ai_response_content :: "(py_error + json) \<Rightarrow> string \<Rightarrow> py_error + json" where
  "get_ai_response_content chat_result user_input =
     (if py_strip user_input = [] then Inl (ValueError ''Input is required'')
      else (case chat_result of
              Inl e \<Rightarrow> Inl e
            | Inr response_json \<Rightarrow> extract_content response_json))"

subsection \<open>analyze_system_data: the prompt\<close>

text \<open>
  One dictionary of the list that \<open>list_processes\<close> returns. \<open>rss_bytes\<close> is its key
  \<open>rss\<close>. The CPU and memory percentages are \<open>None\<close> when they could not be read.
\<close>

record process_record = proc_id +
  cmdline :: string
  cpu_percent :: "real option"
  memory_percent :: "real option"
  rss_bytes :: nat

text \<open>
  The sort key \<open>p.get('cpu_percent', 0)\<close>. The key \<open>cpu_percent\<close> is always in the
  dictionary; the value 0 given here to \<open>None\<close> is never compared, see
  \<open>processes_for_prompt\<close>.
\<close>

definition cpu_percent_key :: "process_record \<Rightarrow> real" where
  "cpu_percent_key p = (case cpu_percent p of None \<Rightarrow> 0 | Some c \<Rightarrow> c)"

text \<open>
  \<open>sorted(processes, key=..., reverse=True)[:20]\<close>. Sorting two or more processes
  compares every key at least once, and a comparison with \<open>None\<close> raises a
  \<open>TypeError\<close>.
\<close>

definition processes_for_prompt :: "process_record list \<Rightarrow> py_error + process_record list" where
  "processes_for_prompt processes =
     (if 2 \<le> length processes \<and> (\<exists>p\<in>set processes. cpu_percent p = None) then Inl TypeError
      else Inr (py_slice_to (py_sorted_reverse cpu_percent_key processes) 20))"

text \<open>\<open>s.replace('\n', ' ').replace('\r', '')\<close>\<close>

definition replace_newlines :: "string \<Rightarrow> string" where
  "replace_newlines s =
     filter (\<lambda>c. c \<noteq> CHR 0x0D) (map (\<lambda>c. if c = CHR 0x0A then CHR '' '' else c) s)"

definition cmdline_display :: "string \<Rightarrow> string" where
  "cmdline_display c = replace_newlines (if 100 < length c then take 97 c @ ''...'' else c)"

definition mem_display :: "(real \<Rightarrow> string) \<Rightarrow> real option \<Rightarrow> string" where
  "mem_display fmt_2f mem_percent =
     (case mem_percent of Some m \<Rightarrow> fmt_2f m @ ''%'' | None \<Rightarrow> ''N/A'')"

text \<open>A name or user name inside an f-string: \<open>None\<close> is printed as \<open>None\<close>.\<close>

definition str_opt :: "string option \<Rightarrow> string" where
  "str_opt v = (case v of None \<Rightarrow> ''None'' | Some s \<Rightarrow> s)"

text \<open>
  The line of one process. The formats \<open>:.2f\<close> of a float and \<open>str\<close> of an integer are
  the parameters \<open>fmt_2f\<close> and \<open>str_int\<close>. The format \<open>:.2f\<close> of \<open>None\<close> raises a
  \<open>TypeError\<close>.
\<close>

definition process_line ::
  "(real \<Rightarrow> string) \<Rightarrow> (int \<Rightarrow> string) \<Rightarrow> process_record \<Rightarrow> py_error + string" where
  "process_line fmt_2f str_int p =
     (case cpu_percent p of
        None \<Rightarrow> Inl TypeError
      | Some cpu \<Rightarrow>
          Inr (''- PID: '' @ str_int (pid p) @ '', Name: '' @ str_opt (name p)
               @ '', User: '' @ str_opt (username p) @ '', CPU: '' @ fmt_2f cpu
               @ ''%, Memory: '' @ mem_display fmt_2f (memory_percent p)
               @ '', Cmdline: '' @ cmdline_display (cmdline p) @ [CHR 0x0A]))"

fun process_lines ::
  "(real \<Rightarrow> string) \<Rightarrow> (int \<Rightarrow> string) \<Rightarrow> process_record list \<Rightarrow> py_error + string list" where
  "process_lines fmt_2f str_int [] = Inr []"
| "process_lines fmt_2f str_int (p # ps) =
     (case process_line fmt_2f str_int p of
        Inl e \<Rightarrow> Inl e
      | Inr l \<Rightarrow>
          (case process_lines fmt_2f str_int ps of
             Inl e \<Rightarrow> Inl e
           | Inr ls \<Rightarrow> Inr (l # ls)))"

fun gauge_line :: "(real \<Rightarrow> string) \<Rightarrow> (int \<Rightarrow> string) \<Rightarrow> string \<times> gauge \<Rightarrow> string" where
  "gauge_line fmt_2f str_int (key, PyFloat x) = ''- '' @ key @ '': '' @ fmt_2f x @ [CHR 0x0A]"
| "gauge_line fmt_2f str_int (key, PyInt n) = ''- '' @ key @ '': '' @ str_int n @ [CHR 0x0A]"

definition prompt_head ::
  "(real \<Rightarrow> string) \<Rightarrow> (int \<Rightarrow> string) \<Rightarrow> (string \<times> gauge) list \<Rightarrow> string" where
  "prompt_head fmt_2f str_int system_info =
     ''Analyze the following system data and provide concise advice on potential congestion, overload, or malicious activity.''
     @ [CHR 0x0A, CHR 0x0A]
     @ ''System Information:'' @ [CHR 0x0A]
     @ concat (map (gauge_line fmt_2f str_int) system_info)
     @ [CHR 0x0A] @ ''Running Processes:'' @ [CHR 0x0A]"

definition prompt_tail :: string where
  "prompt_tail =
     [CHR 0x0A] @ ''Based on this data, identify any potential issues (high resource usage, unusual processes, potential malicious indicators) and provide concise, actionable advice. If everything looks normal, state that.''"

text \<open>The prompt that \<open>analyze_system_data\<close> builds before it calls the client.\<close>

definition analyze_prompt ::
  "(real \<Rightarrow> string) \<Rightarrow> (int \<Rightarrow> string) \<Rightarrow> (string \<times> gauge) list \<Rightarrow> process_record list
     \<Rightarrow> py_error + string" where
  "analyze_prompt fmt_2f str_int system_info processes =
     (if processes \<noteq> [] then
        (case processes_for_prompt processes of
           Inl e \<Rightarrow> Inl e
         | Inr sel \<Rightarrow>
             (case process_lines fmt_2f str_int sel of
                Inl e \<Rightarrow> Inl e
              | Inr ls \<Rightarrow> Inr (prompt_head fmt_2f str_int system_info @ concat ls @ prompt_tail)))
      else Inr (prompt_head fmt_2f str_int system_info
                @ ''No process data available.'' @ [CHR 0x0A] @ prompt_tail))"

section \<open>system_monitor.py: the background loop\<close>

text \<open>
  One iteration of the loop reads the clock; the call of \<open>aimon.analyze_system_data\<close>,
  when it is made, returns or raises (\<open>analysis_raises\<close>), and an exception ends the loop
  through the outer handler.
\<close>

record tick =
  current_time :: real
  analysis_raises :: "py_error option"

text \<open>
  The test and the update of \<open>last_ai_check_time\<close> in one iteration: whether the
  analysis is called, and the new \<open>last_ai_check_time\<close> or the exception that ends the
  loop. A client object is always truthy.
\<close>

definition monitor_tick :: "groq option \<Rightarrow> int \<Rightarrow> real \<Rightarrow> tick \<Rightarrow> bool \<times> (py_error + real)" where
  "monitor_tick ai_client ai_check_interval last_ai_check_time t =
     (if ai_client \<noteq> None \<and> real_of_int ai_check_interval \<le> current_time t - last_ai_check_time
      then (True, case analysis_raises t of Some e \<Rightarrow> Inl e | None \<Rightarrow> Inr (current_time t))
      else (False, Inr last_ai_check_time))"

text \<open>
  The loop over the iterations that the process lives to make; the result says for each
  iteration that ran whether the analysis was called.
\<close>

fun run_background_monitor :: "groq option \<Rightarrow> int \<Rightarrow> real \<Rightarrow> tick list \<Rightarrow> bool list" where
  "run_background_monitor ai_client ai_check_interval last_ai_check_time [] = []"
| "run_background_monitor ai_client ai_check_interval last_ai_check_time (t # ts) =
     (case monitor_tick ai_client ai_check_interval last_ai_check_time t of
        (called, Inl e) \<Rightarrow> [called]
      | (called, Inr last') \<Rightarrow> called # run_background_monitor ai_client ai_check_interval last' ts)"

section \<open>Properties\<close>

lemma py_sorted_reverse_mset: "mset (py_sorted_reverse f xs) = mset xs"
  by (simp add: py_sorted_reverse_def)

lemma py_sorted_reverse_length: "length (py_sorted_reverse f xs) = length xs"
  by (simp add: py_sorted_reverse_def)

lemma py_sorted_reverse_set: "set (py_sorted_reverse f xs) = set xs"
  by (simp add: py_sorted_reverse_def)

lemma py_sorted_reverse_descending:
  "sorted_wrt (\<lambda>a b. f b \<le> f a) (py_sorted_reverse f xs)"
proof -
  have "sorted (map f (sort_key f (rev xs)))"
    by (rule sorted_sort_key)
  then have "sorted_wrt (\<lambda>a b. f a \<le> f b) (sort_key f (rev xs))"
    by (simp add: sorted_wrt_map)
  then show ?thesis
    by (simp add: py_sorted_reverse_def sorted_wrt_rev)
qed

lemma py_sorted_reverse_stable:
  "filter (\<lambda>x. f x = k) (py_sorted_reverse f xs) = filter (\<lambda>x. f x = k) xs"
proof -
  have "filter (\<lambda>x. f x = k) (py_sorted_reverse f xs)
          = rev (filter (\<lambda>x. f x = k) (sort_key f (rev xs)))"
    by (simp add: py_sorted_reverse_def rev_filter)
  also have "\<dots> = rev (filter (\<lambda>x. f x = k) (rev xs))"
    by (simp only: sort_key_stable)
  also have "\<dots> = filter (\<lambda>x. f x = k) xs"
    by (simp add: rev_filter)
  finally show ?thesis .
qed

lemma sorted_desc_take_dominates:
  assumes "sorted_wrt (\<lambda>a b. f b \<le> f a) xs"
  shows "\<forall>x\<in>set (take n xs). \<forall>y\<in>set (drop n xs). f y \<le> f x"
proof -
  from assms have "sorted_wrt (\<lambda>a b. f b \<le> f a) (take n xs @ drop n xs)"
    by simp
  then show ?thesis
    unfolding sorted_wrt_append by blast
qed

lemma mset_minus_take: "mset xs - mset (take n xs) = mset (drop n xs)"
proof -
  have "mset xs = mset (take n xs) + mset (drop n xs)"
    by (metis append_take_drop_id mset_append)
  then show ?thesis by simp
qed

lemma filter_take_prefix: "prefix (filter P (take n xs)) (filter P xs)"
proof -
  have "filter P xs = filter P (take n xs) @ filter P (drop n xs)"
    by (metis append_take_drop_id filter_append)
  then show ?thesis
    by (simp add: prefix_def)
qed






text \<open>
  C3. The claim says that every limit \<open>\<le> 0\<close> gives the empty list. The slice
  \<open>sorted_processes[:limit]\<close> with a negative limit drops that many records from the end
  instead: with two processes and limit \<open>-1\<close> the process with the larger CPU time is
  returned.
\<close>

theorem get_top_cpu_processes_negative_limit:
  "map pid (get_top_cpu_processes
     [\<lparr>pid = 1, name = Some ''a'', username = None, cpu_times = Some [1, 2, 0, 0], memory_info = None\<rparr>,
      \<lparr>pid = 2, name = Some ''b'', username = None, cpu_times = Some [4, 1, 0, 0], memory_info = None\<rparr>]
     (- 1)) = [2]"
  by (simp add: get_top_cpu_processes_def py_slice_to_def py_sorted_reverse_def)

lemma get_top_cpu_processes_zero_limit: "get_top_cpu_processes table 0 = []"
  by (simp add: get_top_cpu_processes_def py_slice_to_def)

lemma get_top_cpu_processes_negative_length:
  "limit < 0 \<Longrightarrow> length (get_top_cpu_processes table limit)
      = nat (int (length (processes_with_cpu_times table)) + limit)"
  by (simp add: get_top_cpu_processes_def py_slice_to_def py_sorted_reverse_length)

lemma matching_processes_origin:
  "r \<in> set (matching_processes lo hi table) \<Longrightarrow>
     \<exists>p\<in>set table. \<exists>m. memory_info p = Some m \<and> rss m \<noteq> 0 \<and> lo \<le> real (rss m) \<and>
        real (rss m) \<le> hi \<and> pid r = pid p \<and> name r = name p \<and> username r = username p \<and>
        rss_mb r = real (rss m) / (1024 * 1024)"
proof (induction table)
  case Nil
  then show ?case by simp
next
  case (Cons p ps)
  show ?case
  proof (cases "r \<in> set (matching_processes lo hi ps)")
    case True
    with Cons.IH show ?thesis by auto
  next
    case False
    with Cons.prems obtain m where m: "memory_info p = Some m" "rss m \<noteq> 0"
        "lo \<le> real (rss m)" "real (rss m) \<le> hi"
        "r = \<lparr>pid = pid p, name = name p, username = username p,
                rss_mb = real (rss m) / (1024 * 1024)\<rparr>"
      by (auto split: option.splits if_splits)
    then show ?thesis by simp
  qed
qed

lemma matching_processes_inverted: "hi < lo \<Longrightarrow> matching_processes lo hi table = []"
  by (induction table) (auto split: option.splits)

lemma matching_processes_filter:
  "matching_processes lo hi
      (filter (\<lambda>p. case memory_info p of None \<Rightarrow> False | Some m \<Rightarrow> rss m \<noteq> 0) table)
     = matching_processes lo hi table"
  by (induction table) (auto split: option.splits)

lemma matching_processes_none:
  "\<forall>p\<in>set table. memory_info p = None \<or> (\<exists>m. memory_info p = Some m \<and> rss m = 0) \<Longrightarrow>
     matching_processes lo hi table = []"
  by (induction table) (auto split: option.splits)

text \<open>
  C2. With \<open>min_mb \<le> max_mb\<close>, every record returned by \<open>get_memory_range_processes\<close>
  comes from a process of the table whose resident bytes \<open>b\<close> satisfy
  \<open>min_mb * 1024 * 1024 \<le> b \<le> max_mb * 1024 * 1024\<close>, both ends included (the record
  holds \<open>b / (1024 * 1024)\<close> as \<open>rss_mb\<close>), and the result is sorted descending by resident
  bytes. With \<open>min_mb > max_mb\<close> the result is the empty list.
\<close>

theorem get_memory_range_processes_in_range:
  "(min_mb \<le> max_mb \<longrightarrow>
      (\<forall>r\<in>set (get_memory_range_processes table min_mb max_mb).
          \<exists>p\<in>set table. \<exists>m. memory_info p = Some m \<and> pid r = pid p \<and>
            rss_mb r * (1024 * 1024) = real (rss m) \<and>
            min_mb * 1024 * 1024 \<le> real (rss m) \<and> real (rss m) \<le> max_mb * 1024 * 1024)
      \<and> sorted_wrt (\<lambda>a b. rss_mb b * (1024 * 1024) \<le> rss_mb a * (1024 * 1024))
            (get_memory_range_processes table min_mb max_mb))
   \<and> (max_mb < min_mb \<longrightarrow> get_memory_range_processes table min_mb max_mb = [])"
proof -
  have in_range: "\<forall>r\<in>set (get_memory_range_processes table min_mb max_mb).
          \<exists>p\<in>set table. \<exists>m. memory_info p = Some m \<and> pid r = pid p \<and>
            rss_mb r * (1024 * 1024) = real (rss m) \<and>
            min_mb * 1024 * 1024 \<le> real (rss m) \<and> real (rss m) \<le> max_mb * 1024 * 1024"
  proof
    fix r assume "r \<in> set (get_memory_range_processes table min_mb max_mb)"
    then have "r \<in> set (matching_processes (min_mb * 1024 * 1024) (max_mb * 1024 * 1024) table)"
      by (simp add: get_memory_range_processes_def py_sorted_reverse_set)
    from matching_processes_origin [OF this]
    obtain p m where "p \<in> set table" "memory_info p = Some m" "pid r = pid p"
        "rss_mb r = real (rss m) / (1024 * 1024)"
        "min_mb * 1024 * 1024 \<le> real (rss m)" "real (rss m) \<le> max_mb * 1024 * 1024"
      by blast
    then show "\<exists>p\<in>set table. \<exists>m. memory_info p = Some m \<and> pid r = pid p \<and>
            rss_mb r * (1024 * 1024) = real (rss m) \<and>
            min_mb * 1024 * 1024 \<le> real (rss m) \<and> real (rss m) \<le> max_mb * 1024 * 1024"
      by auto
  qed
  have "sorted_wrt (\<lambda>a b. rss_mb b \<le> rss_mb a) (get_memory_range_processes table min_mb max_mb)"
    unfolding get_memory_range_processes_def by (rule py_sorted_reverse_descending)
  then have desc: "sorted_wrt (\<lambda>a b. rss_mb b * (1024 * 1024) \<le> rss_mb a * (1024 * 1024))
            (get_memory_range_processes table min_mb max_mb)"
    by simp
  have "max_mb < min_mb \<longrightarrow> get_memory_range_processes table min_mb max_mb = []"
    by (simp add: get_memory_range_processes_def matching_processes_inverted
        py_sorted_reverse_def)
  with in_range desc show ?thesis by blast
qed

theorem get_memory_range_processes_in_range_witness:
  "(1::real) \<le> 2 \<and> (1::real) < 2 \<and>
   map pid (get_memory_range_processes
     [\<lparr>pid = 1, name = None, username = None, cpu_times = None,
         memory_info = Some \<lparr>rss = 1048576, vms = 0\<rparr>\<rparr>,
      \<lparr>pid = 2, name = None, username = None, cpu_times = None,
         memory_info = Some \<lparr>rss = 3145728, vms = 0\<rparr>\<rparr>,
      \<lparr>pid = 3, name = None, username = None, cpu_times = None,
         memory_info = Some \<lparr>rss = 2097152, vms = 0\<rparr>\<rparr>,
      \<lparr>pid = 4, name = None, username = None, cpu_times = None, memory_info = None\<rparr>] 1 2)
     = [3, 1]
   \<and> get_memory_range_processes
     [\<lparr>pid = 1, name = None, username = None, cpu_times = None,
         memory_info = Some \<lparr>rss = 1048576, vms = 0\<rparr>\<rparr>,
      \<lparr>pid = 2, name = None, username = None, cpu_times = None,
         memory_info = Some \<lparr>rss = 3145728, vms = 0\<rparr>\<rparr>,
      \<lparr>pid = 3, name = None, username = None, cpu_times = None,
         memory_info = Some \<lparr>rss = 2097152, vms = 0\<rparr>\<rparr>,
      \<lparr>pid = 4, name = None, username = None, cpu_times = None, memory_info = None\<rparr>] 2 1
     = []"
  using get_memory_range_processes_in_range [of 1 2
     "[\<lparr>pid = 1, name = None, username = None, cpu_times = None,
         memory_info = Some \<lparr>rss = 1048576, vms = 0\<rparr>\<rparr>,
      \<lparr>pid = 2, name = None, username = None, cpu_times = None,
         memory_info = Some \<lparr>rss = 3145728, vms = 0\<rparr>\<rparr>,
      \<lparr>pid = 3, name = None, username = None, cpu_times = None,
         memory_info = Some \<lparr>rss = 2097152, vms = 0\<rparr>\<rparr>,
      \<lparr>pid = 4, name = None, username = None, cpu_times = None, memory_info = None\<rparr>]"]
    get_memory_range_processes_in_range [of 2 1
     "[\<lparr>pid = 1, name = None, username = None, cpu_times = None,
         memory_info = Some \<lparr>rss = 1048576, vms = 0\<rparr>\<rparr>,
      \<lparr>pid = 2, name = None, username = None, cpu_times = None,
         memory_info = Some \<lparr>rss = 3145728, vms = 0\<rparr>\<rparr>,
      \<lparr>pid = 3, name = None, username = None, cpu_times = None,
         memory_info = Some \<lparr>rss = 2097152, vms = 0\<rparr>\<rparr>,
      \<lparr>pid = 4, name = None, username = None, cpu_times = None, memory_info = None\<rparr>]"]
  by (simp add: get_memory_range_processes_def py_sorted_reverse_def)

text \<open>
  C10. \<open>get_memory_range_processes\<close> never returns a record for a process whose resident
  bytes are 0 or whose memory info is unavailable, whatever the bounds (also when
  \<open>min_mb = 0\<close>): every record comes from a process with memory info and non-zero
  resident bytes, removing all other processes from the table does not change the
  result, and a table with only such processes gives the empty list.
\<close>

theorem get_memory_range_processes_skips_zero_rss:
  "(\<forall>r\<in>set (get_memory_range_processes table min_mb max_mb).
        0 < rss_mb r \<and>
        (\<exists>p\<in>set table. \<exists>m. memory_info p = Some m \<and> rss m \<noteq> 0 \<and> pid r = pid p \<and>
           name r = name p \<and> username r = username p \<and>
           rss_mb r = real (rss m) / (1024 * 1024)))
   \<and> get_memory_range_processes
        (filter (\<lambda>p. case memory_info p of None \<Rightarrow> False | Some m \<Rightarrow> rss m \<noteq> 0) table)
        min_mb max_mb
      = get_memory_range_processes table min_mb max_mb
   \<and> ((\<forall>p\<in>set table. memory_info p = None \<or> (\<exists>m. memory_info p = Some m \<and> rss m = 0)) \<longrightarrow>
        get_memory_range_processes table min_mb max_mb = [])"
proof -
  have a: "\<forall>r\<in>set (get_memory_range_processes table min_mb max_mb).
        0 < rss_mb r \<and>
        (\<exists>p\<in>set table. \<exists>m. memory_info p = Some m \<and> rss m \<noteq> 0 \<and> pid r = pid p \<and>
           name r = name p \<and> username r = username p \<and>
           rss_mb r = real (rss m) / (1024 * 1024))"
  proof
    fix r assume "r \<in> set (get_memory_range_processes table min_mb max_mb)"
    then have "r \<in> set (matching_processes (min_mb * 1024 * 1024) (max_mb * 1024 * 1024) table)"
      by (simp add: get_memory_range_processes_def py_sorted_reverse_set)
    from matching_processes_origin [OF this]
    obtain p m where pm: "p \<in> set table" "memory_info p = Some m" "rss m \<noteq> 0" "pid r = pid p"
        "name r = name p" "username r = username p"
        "rss_mb r = real (rss m) / (1024 * 1024)"
      by blast
    then have "0 < rss_mb r" by simp
    with pm show "0 < rss_mb r \<and>
        (\<exists>p\<in>set table. \<exists>m. memory_info p = Some m \<and> rss m \<noteq> 0 \<and> pid r = pid p \<and>
           name r = name p \<and> username r = username p \<and>
           rss_mb r = real (rss m) / (1024 * 1024))"
      by blast
  qed
  have b: "get_memory_range_processes
        (filter (\<lambda>p. case memory_info p of None \<Rightarrow> False | Some m \<Rightarrow> rss m \<noteq> 0) table)
        min_mb max_mb
      = get_memory_range_processes table min_mb max_mb"
    by (simp only: get_memory_range_processes_def matching_processes_filter)
  have c: "(\<forall>p\<in>set table. memory_info p = None \<or> (\<exists>m. memory_info p = Some m \<and> rss m = 0)) \<longrightarrow>
        get_memory_range_processes table min_mb max_mb = []"
    by (simp add: get_memory_range_processes_def matching_processes_none py_sorted_reverse_def)
  from a b c show ?thesis by blast
qed

theorem get_memory_range_processes_skips_zero_rss_witness:
  "map pid (get_memory_range_processes
     [\<lparr>pid = 1, name = None, username = None, cpu_times = None,
         memory_info = Some \<lparr>rss = 0, vms = 4096\<rparr>\<rparr>,
      \<lparr>pid = 2, name = None, username = None, cpu_times = None, memory_info = None\<rparr>,
      \<lparr>pid = 3, name = None, username = None, cpu_times = None,
         memory_info = Some \<lparr>rss = 1048576, vms = 0\<rparr>\<rparr>] 0 5) = [3]
   \<and> get_memory_range_processes
     [\<lparr>pid = 1, name = None, username = None, cpu_times = None,
         memory_info = Some \<lparr>rss = 0, vms = 4096\<rparr>\<rparr>,
      \<lparr>pid = 2, name = None, username = None, cpu_times = None, memory_info = None\<rparr>] 0 5 = []"
  using get_memory_range_processes_skips_zero_rss [of
     "[\<lparr>pid = 1, name = None, username = None, cpu_times = None,
         memory_info = Some \<lparr>rss = 0, vms = 4096\<rparr>\<rparr>,
      \<lparr>pid = 2, name = None, username = None, cpu_times = None, memory_info = None\<rparr>,
      \<lparr>pid = 3, name = None, username = None, cpu_times = None,
         memory_info = Some \<lparr>rss = 1048576, vms = 0\<rparr>\<rparr>]" 0 5]
    get_memory_range_processes_skips_zero_rss [of
     "[\<lparr>pid = 1, name = None, username = None, cpu_times = None,
         memory_info = Some \<lparr>rss = 0, vms = 4096\<rparr>\<rparr>,
      \<lparr>pid = 2, name = None, username = None, cpu_times = None, memory_info = None\<rparr>]" 0 5]
  by (simp add: get_memory_range_processes_def py_sorted_reverse_def)

lemma extract_content_ok:
  "extract_content (JObj [(''choices'', JArr [JObj [(''message'', JObj [(''content'', JStr ''ok'')])]])])
     = Inr (JStr ''ok'')"
  by (simp add: extract_content_def response_content_def)

lemma extract_content_no_choices:
  "extract_content (JObj [(''choices'', JArr [])])
     = Inl (Exception ''Malformed response from Groq API'')"
  by (simp add: extract_content_def response_content_def)

lemma extract_content_errors:
  "extract_content j = Inl e \<Longrightarrow> e = Exception ''Malformed response from Groq API'' \<or> e = TypeError"
proof -
  have a: "\<And>v k e. getitem_key v k = Inl e \<Longrightarrow> e = KeyError \<or> e = TypeError"
    by (case_tac v) (auto split: option.splits)
  have b: "\<And>v e. getitem_0 v = Inl e \<Longrightarrow> e = KeyError \<or> e = IndexError \<or> e = TypeError"
    by (erule getitem_0.elims) auto
  have "\<And>e. response_content j = Inl e \<Longrightarrow> e = KeyError \<or> e = IndexError \<or> e = TypeError"
    unfolding response_content_def
    by (auto split: sum.splits dest: a b)
  then show "extract_content j = Inl e \<Longrightarrow> ?thesis"
    unfolding extract_content_def
    by (auto split: sum.splits py_error.splits)
qed

text \<open>
  C5. The claim says that every response without \<open>choices[0].message.content\<close> makes
  the extraction raise the malformed-response error. The handler catches \<open>KeyError\<close> and
  \<open>IndexError\<close> only: on \<open>{"choices": null}\<close> the subscript \<open>[0]\<close> of \<open>None\<close> raises a
  \<open>TypeError\<close>, which leaves the function as it is.
\<close>

theorem get_ai_response_content_null_choices:
  "extract_content (JObj [(''choices'', JNull)]) = Inl TypeError
   \<and> get_ai_response_content (Inr (JObj [(''choices'', JNull)])) ''hi'' = Inl TypeError"
  by (simp add: get_ai_response_content_def extract_content_def response_content_def
      py_strip_def py_isspace_def)

lemma chat_completions_http_error:
  assumes "400 \<le> status_code r" "status_code r < 600"
  shows "chat_completions py_str http_error_msg stream (Returns r)
           = Inl (Exception (''Groq API Error: '' @ http_error_msg r))"
proof -
  have "raise_for_status http_error_msg r
          = Inl \<lparr>exc_str = http_error_msg r, exc_response = Some r\<rparr>"
    using assms by (simp add: raise_for_status_def)
  moreover have "\<not> response_ok r"
    using assms by (simp add: response_ok_def raise_for_status_def)
  then have "error_message \<lparr>exc_str = http_error_msg r, exc_response = Some r\<rparr>
               = JStr (http_error_msg r)"
    by (simp add: error_message_def error_details_def)
  ultimately show ?thesis
    by (simp add: chat_completions_def)
qed

lemma chat_completions_error_shape:
  "chat_completions py_str http_error_msg stream outcome = Inl e \<Longrightarrow>
     \<exists>m. e = Exception (''Groq API Error: '' @ m)"
  unfolding chat_completions_def
  by (auto split: sum.splits post_outcome.splits if_splits)

text \<open>
  C6. The claim says that on HTTP 429 with the body
  \<open>{"error":{"message":"rate limited"}}\<close> the surfaced message is \<open>rate limited\<close>. The
  handler reads the body only when \<open>e.response\<close> is truthy, and a response with a status
  from 400 to 599 is falsy: the message is the text of the transport error, after the
  prefix \<open>Groq API Error: \<close>, whatever the body holds.
\<close>

theorem chat_completions_429_ignores_body:
  "chat_completions py_str http_error_msg False
     (Returns \<lparr>status_code = 429, resp_text = body,
        resp_json = Inr (JObj [(''error'', JObj [(''message'', JStr ''rate limited'')])]),
        resp_lines = ls\<rparr>)
    = Inl (Exception (''Groq API Error: '' @ http_error_msg
         \<lparr>status_code = 429, resp_text = body,
          resp_json = Inr (JObj [(''error'', JObj [(''message'', JStr ''rate limited'')])]),
          resp_lines = ls\<rparr>))
   \<and> chat_completions py_str http_error_msg False
     (Returns \<lparr>status_code = 429, resp_text = body,
        resp_json = Inr (JObj [(''error'', JObj [(''message'', JStr ''rate limited'')])]),
        resp_lines = ls\<rparr>)
    \<noteq> Inl (Exception ''rate limited'')"
  by (simp add: chat_completions_def raise_for_status_def response_ok_def
      error_message_def error_details_def)

lemma Groq_init_empty: "Groq_init [] = Inl (ValueError ''API key is required'')"
  by (simp add: Groq_init_def)

lemma Groq_init_nonempty:
  "key \<noteq> [] \<Longrightarrow>
     Groq_init key = Inr \<lparr>api_key = py_strip key, base_url = ''https://api.groq.com/openai/v1''\<rparr>"
  by (simp add: Groq_init_def)

text \<open>
  C7. The claim says that a key of whitespace only makes the construction fail. The
  test \<open>not api_key\<close> comes before \<open>strip()\<close>: a key of one space is accepted, and the
  client holds the empty key.
\<close>

theorem Groq_init_whitespace_key:
  "Groq_init '' '' = Inr \<lparr>api_key = [], base_url = ''https://api.groq.com/openai/v1''\<rparr>"
  by (simp add: Groq_init_def py_strip_def py_isspace_def)

text \<open>
  C8, as stated: a gauge that was read successfully is present in the snapshot when
  another read fails. Here the CPU percentage is read as 5 and the memory read fails;
  the snapshot does not hold the CPU percentage.
\<close>

theorem get_system_info_partial_counterexample:
  "map_of (get_system_info
      \<lparr>read_cpu_percent = Inr 5, read_virtual_memory = Inl OSError,
       read_disk_usage = Inr 40, read_net_io_counters = Inr (10, 20)\<rparr>) ''cpu_percent''
     \<noteq> Some (PyFloat 5)"
  by (simp add: get_system_info_def)

text \<open>
  C8, amended. \<open>get_system_info\<close> always returns a snapshot: all five fields with the
  values read when the four reads succeed, and the empty snapshot, with every field
  absent, as soon as one read fails.
\<close>

theorem get_system_info_all_or_nothing:
  "(read_cpu_percent g = Inr c \<and> read_virtual_memory g = Inr m \<and> read_disk_usage g = Inr d \<and>
    read_net_io_counters g = Inr (s, r) \<longrightarrow>
      get_system_info g =
        [(''cpu_percent'', PyFloat c), (''memory_percent'', PyFloat m),
         (''disk_percent'', PyFloat d), (''bytes_sent'', PyInt s), (''bytes_received'', PyInt r)])
   \<and> (isl (read_cpu_percent g) \<or> isl (read_virtual_memory g) \<or> isl (read_disk_usage g) \<or>
      isl (read_net_io_counters g) \<longrightarrow> get_system_info g = [])"
  by (auto simp: get_system_info_def split: sum.splits)

theorem get_system_info_all_or_nothing_witness:
  "get_system_info
      \<lparr>read_cpu_percent = Inr 5, read_virtual_memory = Inr 30,
       read_disk_usage = Inr 40, read_net_io_counters = Inr (10, 20)\<rparr>
     = [(''cpu_percent'', PyFloat 5), (''memory_percent'', PyFloat 30),
        (''disk_percent'', PyFloat 40), (''bytes_sent'', PyInt 10), (''bytes_received'', PyInt 20)]
   \<and> isl (read_disk_usage
      \<lparr>read_cpu_percent = Inr 5, read_virtual_memory = Inr 30,
       read_disk_usage = Inl OSError, read_net_io_counters = Inr (10, 20)\<rparr>)
   \<and> get_system_info
      \<lparr>read_cpu_percent = Inr 5, read_virtual_memory = Inr 30,
       read_disk_usage = Inl OSError, read_net_io_counters = Inr (10, 20)\<rparr> = []"
  using get_system_info_all_or_nothing [of
      "\<lparr>read_cpu_percent = Inr 5, read_virtual_memory = Inr 30,
       read_disk_usage = Inr 40, read_net_io_counters = Inr (10, 20)\<rparr>" 5 30 40 10 20]
    get_system_info_all_or_nothing [of
      "\<lparr>read_cpu_percent = Inr 5, read_virtual_memory = Inr 30,
       read_disk_usage = Inl OSError, read_net_io_counters = Inr (10, 20)\<rparr>"]
  by simp

lemma take_py_sorted_reverse:
  "sorted_wrt (\<lambda>a b. f b \<le> f a) (take n (py_sorted_reverse f xs))
   \<and> length (take n (py_sorted_reverse f xs)) = min n (length xs)
   \<and> mset (take n (py_sorted_reverse f xs)) \<subseteq># mset xs
   \<and> (\<forall>k. prefix (filter (\<lambda>x. f x = k) (take n (py_sorted_reverse f xs)))
                 (filter (\<lambda>x. f x = k) xs))
   \<and> (\<forall>x\<in>set (take n (py_sorted_reverse f xs)).
        \<forall>y\<in>#(mset xs - mset (take n (py_sorted_reverse f xs))). \<not> f x < f y)"
proof -
  define full where "full = py_sorted_reverse f xs"
  have desc: "sorted_wrt (\<lambda>a b. f b \<le> f a) full"
    unfolding full_def by (rule py_sorted_reverse_descending)
  have perm: "mset full = mset xs"
    unfolding full_def by (rule py_sorted_reverse_mset)
  have c1: "sorted_wrt (\<lambda>a b. f b \<le> f a) (take n full)"
    using desc by (rule sorted_wrt_take)
  have c2: "length (take n full) = min n (length xs)"
    by (simp add: full_def py_sorted_reverse_length)
  have "mset (take n full) \<subseteq># mset full"
    by (metis append_take_drop_id mset_append mset_subset_eq_add_left)
  then have c3: "mset (take n full) \<subseteq># mset xs"
    by (simp add: perm)
  have c4: "\<forall>k. prefix (filter (\<lambda>x. f x = k) (take n full)) (filter (\<lambda>x. f x = k) xs)"
  proof
    fix k
    have "prefix (filter (\<lambda>x. f x = k) (take n full)) (filter (\<lambda>x. f x = k) full)"
      by (rule filter_take_prefix)
    then show "prefix (filter (\<lambda>x. f x = k) (take n full)) (filter (\<lambda>x. f x = k) xs)"
      by (simp add: full_def py_sorted_reverse_stable)
  qed
  have "mset xs - mset (take n full) = mset (drop n full)"
    using mset_minus_take [of full n] by (simp add: perm)
  then have c5: "\<forall>x\<in>set (take n full). \<forall>y\<in>#(mset xs - mset (take n full)). \<not> f x < f y"
    using sorted_desc_take_dominates [OF desc, of n] by (auto simp: not_less)
  from c1 c2 c3 c4 c5 show ?thesis
    unfolding full_def by blast
qed

lemma replace_newlines_length: "length (replace_newlines s) \<le> length s"
proof -
  have "length (filter (\<lambda>c. c \<noteq> CHR 0x0D) (map (\<lambda>c. if c = CHR 0x0A then CHR '' '' else c) s))
          \<le> length (map (\<lambda>c. if c = CHR 0x0A then CHR '' '' else c) s)"
    by (rule length_filter_le)
  then show ?thesis
    by (simp add: replace_newlines_def)
qed

lemma replace_newlines_no_newline:
  "CHR 0x0A \<notin> set (replace_newlines s) \<and> CHR 0x0D \<notin> set (replace_newlines s)"
  by (auto simp: replace_newlines_def)

lemma replace_newlines_append:
  "replace_newlines (a @ b) = replace_newlines a @ replace_newlines b"
  by (simp add: replace_newlines_def)

lemma replace_newlines_dots: "replace_newlines ''...'' = ''...''"
  by (simp add: replace_newlines_def)

lemma cmdline_display_bounded:
  "length (cmdline_display c) \<le> 100
   \<and> CHR 0x0A \<notin> set (cmdline_display c) \<and> CHR 0x0D \<notin> set (cmdline_display c)
   \<and> (100 < length c \<longrightarrow> cmdline_display c = replace_newlines (take 97 c) @ ''...'')
   \<and> (length c \<le> 100 \<longrightarrow> cmdline_display c = replace_newlines c)"
proof -
  have "length (cmdline_display c) \<le> 100"
  proof (cases "100 < length c")
    case True
    then have "length (take 97 c @ ''...'') = 100" by simp
    with True show ?thesis
      using replace_newlines_length [of "take 97 c @ ''...''"]
      by (simp add: cmdline_display_def)
  next
    case False
    then show ?thesis
      using replace_newlines_length [of c] by (simp add: cmdline_display_def)
  qed
  moreover have "CHR 0x0A \<notin> set (cmdline_display c) \<and> CHR 0x0D \<notin> set (cmdline_display c)"
    unfolding cmdline_display_def by (rule replace_newlines_no_newline)
  moreover have "100 < length c \<longrightarrow> cmdline_display c = replace_newlines (take 97 c) @ ''...''"
    by (simp add: cmdline_display_def replace_newlines_append replace_newlines_dots)
  moreover have "length c \<le> 100 \<longrightarrow> cmdline_display c = replace_newlines c"
    by (simp add: cmdline_display_def)
  ultimately show ?thesis by blast
qed

lemma process_lines_nth:
  "process_lines fmt_2f str_int sel = Inr ls \<Longrightarrow>
     length ls = length sel \<and> (\<forall>i<length ls. process_line fmt_2f str_int (sel ! i) = Inr (ls ! i))"
proof (induction sel arbitrary: ls)
  case Nil
  then show ?case by simp
next
  case (Cons p ps)
  from Cons.prems obtain l ls' where l: "process_line fmt_2f str_int p = Inr l"
      and ls': "process_lines fmt_2f str_int ps = Inr ls'" and eq: "ls = l # ls'"
    by (auto split: sum.splits)
  from Cons.IH [OF ls'] have ih: "length ls' = length ps"
      "\<forall>i<length ls'. process_line fmt_2f str_int (ps ! i) = Inr (ls' ! i)"
    by simp_all
  show ?case
  proof (intro conjI allI impI)
    show "length ls = length (p # ps)" using eq ih by simp
  next
    fix i assume "i < length ls"
    then show "process_line fmt_2f str_int ((p # ps) ! i) = Inr (ls ! i)"
      using eq l ih by (cases i) auto
  qed
qed

lemma process_lines_total:
  "\<forall>p\<in>set sel. cpu_percent p \<noteq> None \<Longrightarrow> \<exists>ls. process_lines fmt_2f str_int sel = Inr ls"
proof (induction sel)
  case Nil
  then show ?case by simp
next
  case (Cons p ps)
  then obtain ls where "process_lines fmt_2f str_int ps = Inr ls" by auto
  moreover from Cons.prems obtain c where "cpu_percent p = Some c" by auto
  ultimately show ?case by (simp add: process_line_def)
qed

lemma processes_for_prompt_Inr:
  "processes_for_prompt procs = Inr sel \<Longrightarrow> sel = take 20 (py_sorted_reverse cpu_percent_key procs)"
  by (auto simp: processes_for_prompt_def py_slice_to_def split: if_splits)

lemma processes_for_prompt_total:
  "\<forall>p\<in>set procs. cpu_percent p \<noteq> None \<Longrightarrow>
     processes_for_prompt procs = Inr (take 20 (py_sorted_reverse cpu_percent_key procs))"
  by (auto simp: processes_for_prompt_def py_slice_to_def)

lemma process_line_Inr:
  assumes "process_line fmt_2f str_int p = Inr l"
  shows "cpu_percent p = Some (cpu_percent_key p)"
    and "l = ''- PID: '' @ str_int (pid p) @ '', Name: '' @ str_opt (name p)
               @ '', User: '' @ str_opt (username p) @ '', CPU: '' @ fmt_2f (cpu_percent_key p)
               @ ''%, Memory: '' @ mem_display fmt_2f (memory_percent p)
               @ '', Cmdline: '' @ cmdline_display (cmdline p) @ [CHR 0x0A]"
proof -
  have some: "cpu_percent p \<noteq> None"
  proof
    assume "cpu_percent p = None"
    then have "process_line fmt_2f str_int p = Inl TypeError"
      by (simp only: process_line_def option.case)
    with assms show False by simp
  qed
  then obtain cpu where cpu: "cpu_percent p = Some cpu" by blast
  then have key: "cpu_percent_key p = cpu"
    by (simp only: cpu_percent_key_def option.case)
  from cpu key show "cpu_percent p = Some (cpu_percent_key p)" by simp
  from cpu have "process_line fmt_2f str_int p =
          Inr (''- PID: '' @ str_int (pid p) @ '', Name: '' @ str_opt (name p)
               @ '', User: '' @ str_opt (username p) @ '', CPU: '' @ fmt_2f cpu
               @ ''%, Memory: '' @ mem_display fmt_2f (memory_percent p)
               @ '', Cmdline: '' @ cmdline_display (cmdline p) @ [CHR 0x0A])"
    by (simp only: process_line_def option.case)
  with assms show "l = ''- PID: '' @ str_int (pid p) @ '', Name: '' @ str_opt (name p)
               @ '', User: '' @ str_opt (username p) @ '', CPU: '' @ fmt_2f (cpu_percent_key p)
               @ ''%, Memory: '' @ mem_display fmt_2f (memory_percent p)
               @ '', Cmdline: '' @ cmdline_display (cmdline p) @ [CHR 0x0A]"
    by (simp only: sum.inject key)
qed

lemma process_line_one_newline:
  assumes l: "process_line fmt_2f str_int p = Inr l"
    and f: "\<forall>x. CHR 0x0A \<notin> set (fmt_2f x)" and s: "\<forall>n. CHR 0x0A \<notin> set (str_int n)"
    and n: "CHR 0x0A \<notin> set (str_opt (name p))" and u: "CHR 0x0A \<notin> set (str_opt (username p))"
  shows "filter (\<lambda>c. c = CHR 0x0A) l = [CHR 0x0A]"
proof -
  have a: "filter (\<lambda>c. c = CHR 0x0A) (str_int (pid p)) = []"
    using s by (auto simp: filter_empty_conv)
  have b: "filter (\<lambda>c. c = CHR 0x0A) (str_opt (name p)) = []"
    using n by (auto simp: filter_empty_conv)
  have c: "filter (\<lambda>c. c = CHR 0x0A) (str_opt (username p)) = []"
    using u by (auto simp: filter_empty_conv)
  have d: "filter (\<lambda>c. c = CHR 0x0A) (fmt_2f (cpu_percent_key p)) = []"
    using f by (auto simp: filter_empty_conv)
  have e: "filter (\<lambda>c. c = CHR 0x0A) (mem_display fmt_2f (memory_percent p)) = []"
    using f by (cases "memory_percent p") (auto simp: mem_display_def filter_empty_conv)
  have g: "filter (\<lambda>c. c = CHR 0x0A) (cmdline_display (cmdline p)) = []"
    using replace_newlines_no_newline [of "if 100 < length (cmdline p)
        then take 97 (cmdline p) @ ''...'' else cmdline p"]
    by (simp only: cmdline_display_def filter_empty_conv) blast
  show ?thesis
    unfolding process_line_Inr(2) [OF l]
    by (simp add: a b c d e g)
qed

lemma process_lines_newlines:
  assumes "process_lines fmt_2f str_int sel = Inr ls"
    and "\<forall>x. CHR 0x0A \<notin> set (fmt_2f x)" and "\<forall>n. CHR 0x0A \<notin> set (str_int n)"
    and "\<forall>p\<in>set sel. CHR 0x0A \<notin> set (str_opt (name p)) \<and> CHR 0x0A \<notin> set (str_opt (username p))"
  shows "length (filter (\<lambda>c. c = CHR 0x0A) (concat ls)) = length sel"
  using assms(1,4)
proof (induction sel arbitrary: ls)
  case Nil
  then show ?case by simp
next
  case (Cons p ps)
  from Cons.prems(1) obtain l ls' where l: "process_line fmt_2f str_int p = Inr l"
      and ls': "process_lines fmt_2f str_int ps = Inr ls'" and eq: "ls = l # ls'"
    by (auto split: sum.splits)
  from Cons.prems(2) have "CHR 0x0A \<notin> set (str_opt (name p))" "CHR 0x0A \<notin> set (str_opt (username p))"
    by simp_all
  with l assms(2,3) have one: "filter (\<lambda>c. c = CHR 0x0A) l = [CHR 0x0A]"
    by (rule process_line_one_newline)
  from Cons.prems(2) have "\<forall>p\<in>set ps. CHR 0x0A \<notin> set (str_opt (name p))
      \<and> CHR 0x0A \<notin> set (str_opt (username p))"
    by simp
  with Cons.IH [OF ls'] have "length (filter (\<lambda>c. c = CHR 0x0A) (concat ls')) = length ps"
    by blast
  with one eq show ?case by simp
qed

lemma process_lines_Inr_some:
  "process_lines fmt_2f str_int sel = Inr ls \<Longrightarrow> \<forall>p\<in>set sel. cpu_percent p \<noteq> None"
proof (induction sel arbitrary: ls)
  case Nil
  then show ?case by simp
next
  case (Cons p ps)
  from Cons.prems obtain l ls' where l: "process_line fmt_2f str_int p = Inr l"
      and ls': "process_lines fmt_2f str_int ps = Inr ls'"
    by (auto split: sum.splits)
  from process_line_Inr(1) [OF l] Cons.IH [OF ls'] show ?case by simp
qed

lemma analyze_prompt_built:
  assumes "procs \<noteq> []"
  shows "(\<not> isl (analyze_prompt fmt_2f str_int info procs)) = (\<forall>p\<in>set procs. cpu_percent p \<noteq> None)"
proof
  assume "\<not> isl (analyze_prompt fmt_2f str_int info procs)"
  with assms obtain sel ls where sel: "processes_for_prompt procs = Inr sel"
      and ls: "process_lines fmt_2f str_int sel = Inr ls"
    by (auto simp: analyze_prompt_def split: sum.splits)
  show "\<forall>p\<in>set procs. cpu_percent p \<noteq> None"
  proof (cases "2 \<le> length procs")
    case True
    with sel show ?thesis
      by (auto simp: processes_for_prompt_def split: if_splits)
  next
    case False
    with assms obtain p where p: "procs = [p]"
      by (cases procs) (auto simp: Suc_le_eq)
    with sel have "sel = [p]"
      by (simp add: processes_for_prompt_def py_slice_to_def py_sorted_reverse_def)
    with process_lines_Inr_some [OF ls] p show ?thesis by simp
  qed
next
  assume all: "\<forall>p\<in>set procs. cpu_percent p \<noteq> None"
  then have sel: "processes_for_prompt procs
      = Inr (take 20 (py_sorted_reverse cpu_percent_key procs))"
    by (rule processes_for_prompt_total)
  have "set (take 20 (py_sorted_reverse cpu_percent_key procs)) \<subseteq> set procs"
    using set_take_subset [of 20 "py_sorted_reverse cpu_percent_key procs"]
    by (simp add: py_sorted_reverse_set)
  with all have "\<forall>p\<in>set (take 20 (py_sorted_reverse cpu_percent_key procs)). cpu_percent p \<noteq> None"
    by blast
  then obtain ls where "process_lines fmt_2f str_int
      (take 20 (py_sorted_reverse cpu_percent_key procs)) = Inr ls"
    using process_lines_total by blast
  with sel assms show "\<not> isl (analyze_prompt fmt_2f str_int info procs)"
    by (simp add: analyze_prompt_def)
qed

text \<open>
  C4, as stated: the prompt holds at most 20 process lines. The name of a process is
  put into its entry as it is. Here one process has a name of 20 newline characters,
  and the part of the prompt written for the processes has 21 lines.
\<close>

theorem analyze_prompt_lines_counterexample:
  "analyze_prompt (\<lambda>x. ''5.00'') (\<lambda>n. ''7'') []
      [\<lparr>pid = 7, name = Some (replicate 20 (CHR 0x0A)), username = None, cmdline = ''ls'',
        cpu_percent = Some 5, memory_percent = None, rss_bytes = 0\<rparr>]
     = Inr (prompt_head (\<lambda>x. ''5.00'') (\<lambda>n. ''7'') []
            @ (''- PID: 7, Name: '' @ replicate 20 (CHR 0x0A)
               @ '', User: None, CPU: 5.00%, Memory: N/A, Cmdline: ls'' @ [CHR 0x0A])
            @ prompt_tail)
   \<and> length (filter (\<lambda>c. c = CHR 0x0A)
        (''- PID: 7, Name: '' @ replicate 20 (CHR 0x0A)
         @ '', User: None, CPU: 5.00%, Memory: N/A, Cmdline: ls'' @ [CHR 0x0A])) = 21"
  by (simp add: analyze_prompt_def processes_for_prompt_def py_slice_to_def
      py_sorted_reverse_def process_line_def str_opt_def mem_display_def cmdline_display_def
      replace_newlines_def)

text \<open>
  C4, amended. For a non-empty process list the prompt is built exactly when every
  process has a \<open>cpu_percent\<close>. The processes selected for it are at most 20, the
  minimum of 20 and the length of the list; they are sorted descending by
  \<open>cpu_percent\<close>, equal percentages keep their scan order, and no process left out has a
  greater percentage than a selected one. The prompt is the head, one entry for each
  selected process in that order, and the tail. Each entry is the text of the source's
  f-string and ends with the rendered command line and a newline; the entries make
  exactly one line each when the formatted numbers, the names and the user names hold no
  newline. The rendered command line has at most 100 characters, is the first 97
  characters (with the same replacements) followed by \<open>...\<close> when the command line has
  more than 100 characters, and holds no newline and no carriage return. An empty list
  gives no entry.
\<close>

theorem analyze_prompt_process_entries:
  "(procs \<noteq> [] \<longrightarrow>
      (\<not> isl (analyze_prompt fmt_2f str_int info procs))
        = (\<forall>p\<in>set procs. cpu_percent p \<noteq> None))
   \<and> (procs = [] \<longrightarrow>
        analyze_prompt fmt_2f str_int info procs
          = Inr (prompt_head fmt_2f str_int info @ ''No process data available.'' @ [CHR 0x0A]
                 @ prompt_tail))
   \<and> (processes_for_prompt procs = Inr sel \<longrightarrow>
        length sel \<le> 20 \<and> length sel = min 20 (length procs)
        \<and> mset sel \<subseteq># mset procs
        \<and> sorted_wrt (\<lambda>a b. cpu_percent_key b \<le> cpu_percent_key a) sel
        \<and> (\<forall>k. prefix (filter (\<lambda>p. cpu_percent_key p = k) sel)
                      (filter (\<lambda>p. cpu_percent_key p = k) procs))
        \<and> (\<forall>x\<in>set sel. \<forall>y\<in>#(mset procs - mset sel). \<not> cpu_percent_key x < cpu_percent_key y))
   \<and> (procs \<noteq> [] \<and> analyze_prompt fmt_2f str_int info procs = Inr prompt \<longrightarrow>
        (\<exists>sel ls. processes_for_prompt procs = Inr sel
           \<and> process_lines fmt_2f str_int sel = Inr ls
           \<and> prompt = prompt_head fmt_2f str_int info @ concat ls @ prompt_tail))
   \<and> (process_lines fmt_2f str_int sel = Inr ls \<longrightarrow>
        length ls = length sel
        \<and> (\<forall>p\<in>set sel. cpu_percent p = Some (cpu_percent_key p))
        \<and> (\<forall>i<length sel. ls ! i =
              ''- PID: '' @ str_int (pid (sel ! i)) @ '', Name: '' @ str_opt (name (sel ! i))
              @ '', User: '' @ str_opt (username (sel ! i))
              @ '', CPU: '' @ fmt_2f (cpu_percent_key (sel ! i))
              @ ''%, Memory: '' @ mem_display fmt_2f (memory_percent (sel ! i))
              @ '', Cmdline: '' @ cmdline_display (cmdline (sel ! i)) @ [CHR 0x0A])
        \<and> ((\<forall>x. CHR 0x0A \<notin> set (fmt_2f x)) \<and> (\<forall>n. CHR 0x0A \<notin> set (str_int n))
            \<and> (\<forall>p\<in>set sel. CHR 0x0A \<notin> set (str_opt (name p))
                  \<and> CHR 0x0A \<notin> set (str_opt (username p))) \<longrightarrow>
              length (filter (\<lambda>c. c = CHR 0x0A) (concat ls)) = length sel))
   \<and> length (cmdline_display c) \<le> 100
   \<and> CHR 0x0A \<notin> set (cmdline_display c) \<and> CHR 0x0D \<notin> set (cmdline_display c)
   \<and> (100 < length c \<longrightarrow> cmdline_display c = replace_newlines (take 97 c) @ ''...'')"
proof -
  have a: "procs \<noteq> [] \<longrightarrow>
      (\<not> isl (analyze_prompt fmt_2f str_int info procs))
        = (\<forall>p\<in>set procs. cpu_percent p \<noteq> None)"
    using analyze_prompt_built by blast
  have b: "procs = [] \<longrightarrow>
        analyze_prompt fmt_2f str_int info procs
          = Inr (prompt_head fmt_2f str_int info @ ''No process data available.'' @ [CHR 0x0A]
                 @ prompt_tail)"
    by (simp add: analyze_prompt_def)
  have c: "processes_for_prompt procs = Inr sel \<longrightarrow>
        length sel \<le> 20 \<and> length sel = min 20 (length procs)
        \<and> mset sel \<subseteq># mset procs
        \<and> sorted_wrt (\<lambda>a b. cpu_percent_key b \<le> cpu_percent_key a) sel
        \<and> (\<forall>k. prefix (filter (\<lambda>p. cpu_percent_key p = k) sel)
                      (filter (\<lambda>p. cpu_percent_key p = k) procs))
        \<and> (\<forall>x\<in>set sel. \<forall>y\<in>#(mset procs - mset sel). \<not> cpu_percent_key x < cpu_percent_key y)"
  proof
    assume "processes_for_prompt procs = Inr sel"
    then have top: "sel = take 20 (py_sorted_reverse cpu_percent_key procs)"
      by (rule processes_for_prompt_Inr)
    note sorted = take_py_sorted_reverse [of cpu_percent_key 20 procs, folded top]
    from sorted have "length sel \<le> 20" by simp
    with sorted show "length sel \<le> 20 \<and> length sel = min 20 (length procs)
        \<and> mset sel \<subseteq># mset procs
        \<and> sorted_wrt (\<lambda>a b. cpu_percent_key b \<le> cpu_percent_key a) sel
        \<and> (\<forall>k. prefix (filter (\<lambda>p. cpu_percent_key p = k) sel)
                      (filter (\<lambda>p. cpu_percent_key p = k) procs))
        \<and> (\<forall>x\<in>set sel. \<forall>y\<in>#(mset procs - mset sel). \<not> cpu_percent_key x < cpu_percent_key y)"
      by blast
  qed
  have d: "procs \<noteq> [] \<and> analyze_prompt fmt_2f str_int info procs = Inr prompt \<longrightarrow>
        (\<exists>sel ls. processes_for_prompt procs = Inr sel
           \<and> process_lines fmt_2f str_int sel = Inr ls
           \<and> prompt = prompt_head fmt_2f str_int info @ concat ls @ prompt_tail)"
    by (auto simp: analyze_prompt_def split: sum.splits)
  have e: "process_lines fmt_2f str_int sel = Inr ls \<longrightarrow>
        length ls = length sel
        \<and> (\<forall>p\<in>set sel. cpu_percent p = Some (cpu_percent_key p))
        \<and> (\<forall>i<length sel. ls ! i =
              ''- PID: '' @ str_int (pid (sel ! i)) @ '', Name: '' @ str_opt (name (sel ! i))
              @ '', User: '' @ str_opt (username (sel ! i))
              @ '', CPU: '' @ fmt_2f (cpu_percent_key (sel ! i))
              @ ''%, Memory: '' @ mem_display fmt_2f (memory_percent (sel ! i))
              @ '', Cmdline: '' @ cmdline_display (cmdline (sel ! i)) @ [CHR 0x0A])
        \<and> ((\<forall>x. CHR 0x0A \<notin> set (fmt_2f x)) \<and> (\<forall>n. CHR 0x0A \<notin> set (str_int n))
            \<and> (\<forall>p\<in>set sel. CHR 0x0A \<notin> set (str_opt (name p))
                  \<and> CHR 0x0A \<notin> set (str_opt (username p))) \<longrightarrow>
              length (filter (\<lambda>c. c = CHR 0x0A) (concat ls)) = length sel)"
  proof
    assume ls: "process_lines fmt_2f str_int sel = Inr ls"
    note lines = process_lines_nth [OF ls]
    have e1: "length ls = length sel" using lines by simp
    have e2: "\<forall>p\<in>set sel. cpu_percent p = Some (cpu_percent_key p)"
    proof
      fix p assume "p \<in> set sel"
      then obtain i where "i < length sel" "sel ! i = p"
        by (auto simp: in_set_conv_nth)
      with lines have "process_line fmt_2f str_int p = Inr (ls ! i)" by auto
      then show "cpu_percent p = Some (cpu_percent_key p)"
        by (rule process_line_Inr(1))
    qed
    have e3: "\<forall>i<length sel. ls ! i =
              ''- PID: '' @ str_int (pid (sel ! i)) @ '', Name: '' @ str_opt (name (sel ! i))
              @ '', User: '' @ str_opt (username (sel ! i))
              @ '', CPU: '' @ fmt_2f (cpu_percent_key (sel ! i))
              @ ''%, Memory: '' @ mem_display fmt_2f (memory_percent (sel ! i))
              @ '', Cmdline: '' @ cmdline_display (cmdline (sel ! i)) @ [CHR 0x0A]"
    proof (intro allI impI)
      fix i assume "i < length sel"
      with lines have "process_line fmt_2f str_int (sel ! i) = Inr (ls ! i)" by simp
      then show "ls ! i =
              ''- PID: '' @ str_int (pid (sel ! i)) @ '', Name: '' @ str_opt (name (sel ! i))
              @ '', User: '' @ str_opt (username (sel ! i))
              @ '', CPU: '' @ fmt_2f (cpu_percent_key (sel ! i))
              @ ''%, Memory: '' @ mem_display fmt_2f (memory_percent (sel ! i))
              @ '', Cmdline: '' @ cmdline_display (cmdline (sel ! i)) @ [CHR 0x0A]"
        by (rule process_line_Inr(2))
    qed
    have e4: "(\<forall>x. CHR 0x0A \<notin> set (fmt_2f x)) \<and> (\<forall>n. CHR 0x0A \<notin> set (str_int n))
            \<and> (\<forall>p\<in>set sel. CHR 0x0A \<notin> set (str_opt (name p))
                  \<and> CHR 0x0A \<notin> set (str_opt (username p))) \<longrightarrow>
              length (filter (\<lambda>c. c = CHR 0x0A) (concat ls)) = length sel"
      using process_lines_newlines [OF ls] by blast
    from e1 e2 e3 e4 show "length ls = length sel
        \<and> (\<forall>p\<in>set sel. cpu_percent p = Some (cpu_percent_key p))
        \<and> (\<forall>i<length sel. ls ! i =
              ''- PID: '' @ str_int (pid (sel ! i)) @ '', Name: '' @ str_opt (name (sel ! i))
              @ '', User: '' @ str_opt (username (sel ! i))
              @ '', CPU: '' @ fmt_2f (cpu_percent_key (sel ! i))
              @ ''%, Memory: '' @ mem_display fmt_2f (memory_percent (sel ! i))
              @ '', Cmdline: '' @ cmdline_display (cmdline (sel ! i)) @ [CHR 0x0A])
        \<and> ((\<forall>x. CHR 0x0A \<notin> set (fmt_2f x)) \<and> (\<forall>n. CHR 0x0A \<notin> set (str_int n))
            \<and> (\<forall>p\<in>set sel. CHR 0x0A \<notin> set (str_opt (name p))
                  \<and> CHR 0x0A \<notin> set (str_opt (username p))) \<longrightarrow>
              length (filter (\<lambda>c. c = CHR 0x0A) (concat ls)) = length sel)"
      by (intro conjI)
  qed
  note f = cmdline_display_bounded [of c]
  from a b c d e f show ?thesis by (intro conjI) blast+
qed

theorem analyze_prompt_process_entries_witness:
  "processes_for_prompt
       (map (\<lambda>(i, c). \<lparr>pid = i, name = None, username = None, cmdline = [],
            cpu_percent = Some c, memory_percent = None, rss_bytes = 0\<rparr>)
          [(1, 1), (2, 2), (3, 0), (4, 1), (5, 2), (6, 0), (7, 1), (8, 2), (9, 0), (10,
          1), (11, 2), (12, 0), (13, 1), (14, 2), (15, 0), (16, 1), (17, 2), (18, 0), (19,
          1), (20, 2), (21, 0)])
     = Inr (map (\<lambda>(i, c). \<lparr>pid = i, name = None, username = None, cmdline = [],
            cpu_percent = Some c, memory_percent = None, rss_bytes = 0\<rparr>)
          [(2, 2), (5, 2), (8, 2), (11, 2), (14, 2), (17, 2), (20, 2), (1, 1), (4, 1), (7,
          1), (10, 1), (13, 1), (16, 1), (19, 1), (3, 0), (6, 0), (9, 0), (12, 0), (15,
          0), (18, 0)])
   \<and> length (map (\<lambda>(i, c). \<lparr>pid = i, name = None, username = None, cmdline = [],
            cpu_percent = Some c, memory_percent = None, rss_bytes = 0\<rparr>)
          [(2, 2), (5, 2), (8, 2), (11, 2), (14, 2), (17, 2), (20, 2), (1, 1), (4, 1), (7,
          1), (10, 1), (13, 1), (16, 1), (19, 1), (3, 0), (6, 0), (9, 0), (12, 0), (15,
          0), (18, 0)]) = 20
   \<and> \<not> isl (analyze_prompt (\<lambda>x. ''5.00'') (\<lambda>n. ''7'') []
       (map (\<lambda>(i, c). \<lparr>pid = i, name = None, username = None, cmdline = [],
            cpu_percent = Some c, memory_percent = None, rss_bytes = 0\<rparr>)
          [(1, 1), (2, 2), (3, 0), (4, 1), (5, 2), (6, 0), (7, 1), (8, 2), (9, 0), (10,
          1), (11, 2), (12, 0), (13, 1), (14, 2), (15, 0), (16, 1), (17, 2), (18, 0), (19,
          1), (20, 2), (21, 0)]))
   \<and> analyze_prompt (\<lambda>x. ''5.00'') (\<lambda>n. ''7'') []
        [\<lparr>pid = 7, name = Some ''sh'', username = None, cmdline = ''ls -l'',
          cpu_percent = Some 5, memory_percent = None, rss_bytes = 0\<rparr>]
      = Inr (prompt_head (\<lambda>x. ''5.00'') (\<lambda>n. ''7'') []
             @ concat [''- PID: 7, Name: sh, User: None, CPU: 5.00%, Memory: N/A, Cmdline: ls -l'' @ [CHR 0x0A]]
             @ prompt_tail)
   \<and> process_lines (\<lambda>x. ''5.00'') (\<lambda>n. ''7'')
        [\<lparr>pid = 7, name = Some ''sh'', username = None, cmdline = ''ls -l'',
          cpu_percent = Some 5, memory_percent = None, rss_bytes = 0\<rparr>]
      = Inr [''- PID: 7, Name: sh, User: None, CPU: 5.00%, Memory: N/A, Cmdline: ls -l'' @ [CHR 0x0A]]
   \<and> length (filter (\<lambda>c. c = CHR 0x0A)
        (concat [''- PID: 7, Name: sh, User: None, CPU: 5.00%, Memory: N/A, Cmdline: ls -l'' @ [CHR 0x0A]])) = 1
   \<and> analyze_prompt (\<lambda>x. ''5.00'') (\<lambda>n. ''7'') [] []
      = Inr (prompt_head (\<lambda>x. ''5.00'') (\<lambda>n. ''7'') [] @ ''No process data available.''
             @ [CHR 0x0A] @ prompt_tail)
   \<and> 100 < length (replicate 98 (CHR 0x0D) @ ''abc'')
   \<and> cmdline_display (replicate 98 (CHR 0x0D) @ ''abc'') = ''...''"
proof -
  let ?P = "(map (\<lambda>(i, c). \<lparr>pid = i, name = None, username = None, cmdline = [],
            cpu_percent = Some c, memory_percent = None, rss_bytes = 0\<rparr>)
          [(1, 1), (2, 2), (3, 0), (4, 1), (5, 2), (6, 0), (7, 1), (8, 2), (9, 0), (10,
          1), (11, 2), (12, 0), (13, 1), (14, 2), (15, 0), (16, 1), (17, 2), (18, 0), (19,
          1), (20, 2), (21, 0)])"
  let ?S = "(map (\<lambda>(i, c). \<lparr>pid = i, name = None, username = None, cmdline = [],
            cpu_percent = Some c, memory_percent = None, rss_bytes = 0\<rparr>)
          [(2, 2), (5, 2), (8, 2), (11, 2), (14, 2), (17, 2), (20, 2), (1, 1), (4, 1), (7,
          1), (10, 1), (13, 1), (16, 1), (19, 1), (3, 0), (6, 0), (9, 0), (12, 0), (15,
          0), (18, 0)])"
  let ?p = "\<lparr>pid = 7, name = Some ''sh'', username = None, cmdline = ''ls -l'',
          cpu_percent = Some 5, memory_percent = None, rss_bytes = 0\<rparr>"
  let ?l = "''- PID: 7, Name: sh, User: None, CPU: 5.00%, Memory: N/A, Cmdline: ls -l'' @ [CHR 0x0A]"
  have sel: "processes_for_prompt ?P = Inr ?S"
    by (simp add: processes_for_prompt_def py_slice_to_def py_sorted_reverse_def
        cpu_percent_key_def)
  have all: "\<forall>p\<in>set ?P. cpu_percent p \<noteq> None"
    by simp
  have ne: "?P \<noteq> []"
    by simp
  note big = analyze_prompt_process_entries [where procs = ?P and sel = ?S
      and fmt_2f = "(\<lambda>x. ''5.00'')" and str_int = "(\<lambda>n. ''7'')" and info = "[]"]
  from big ne all have built: "\<not> isl (analyze_prompt (\<lambda>x. ''5.00'') (\<lambda>n. ''7'') [] ?P)"
    by blast
  from big sel have len: "length ?S = min 20 (length ?P)"
    by blast
  have lines: "process_lines (\<lambda>x. ''5.00'') (\<lambda>n. ''7'') [?p] = Inr [?l]"
    by (simp add: process_line_def str_opt_def mem_display_def cmdline_display_def
        replace_newlines_def)
  have prompt: "[?p] \<noteq> [] \<and> analyze_prompt (\<lambda>x. ''5.00'') (\<lambda>n. ''7'') [] [?p]
      = Inr (prompt_head (\<lambda>x. ''5.00'') (\<lambda>n. ''7'') [] @ concat [?l] @ prompt_tail)"
    by (simp add: analyze_prompt_def processes_for_prompt_def py_slice_to_def
        py_sorted_reverse_def process_line_def str_opt_def mem_display_def cmdline_display_def
        replace_newlines_def)
  have clean: "(\<forall>x. CHR 0x0A \<notin> set ((\<lambda>x. ''5.00'') x)) \<and> (\<forall>n. CHR 0x0A \<notin> set ((\<lambda>n. ''7'') n))
      \<and> (\<forall>p\<in>set [?p]. CHR 0x0A \<notin> set (str_opt (name p))
            \<and> CHR 0x0A \<notin> set (str_opt (username p)))"
    by (simp add: str_opt_def)
  note small = analyze_prompt_process_entries [where procs = "[?p]" and sel = "[?p]"
      and ls = "[?l]" and fmt_2f = "(\<lambda>x. ''5.00'')" and str_int = "(\<lambda>n. ''7'')" and info = "[]"
      and c = "replicate 98 (CHR 0x0D) @ ''abc''"]
  from small lines clean have count: "length (filter (\<lambda>c. c = CHR 0x0A) (concat [?l])) = length [?p]"
    by blast
  have long: "100 < length (replicate 98 (CHR 0x0D) @ ''abc'')"
    by simp
  with small have "cmdline_display (replicate 98 (CHR 0x0D) @ ''abc'')
      = replace_newlines (take 97 (replicate 98 (CHR 0x0D) @ ''abc'')) @ ''...''"
    by blast
  then have dots: "cmdline_display (replicate 98 (CHR 0x0D) @ ''abc'') = ''...''"
    by (simp add: replace_newlines_def)
  have empty: "analyze_prompt (\<lambda>x. ''5.00'') (\<lambda>n. ''7'') [] []
      = Inr (prompt_head (\<lambda>x. ''5.00'') (\<lambda>n. ''7'') [] @ ''No process data available.''
             @ [CHR 0x0A] @ prompt_tail)"
    using analyze_prompt_process_entries [where procs = "[]" and fmt_2f = "(\<lambda>x. ''5.00'')"
        and str_int = "(\<lambda>n. ''7'')" and info = "[]"]
    by blast
  from len have len20: "length ?S = 20"
    by simp
  from count have one: "length (filter (\<lambda>c. c = CHR 0x0A) (concat [?l])) = 1"
    by simp
  from sel len20 built prompt lines one empty long dots show ?thesis
    by (intro conjI) (rule sel len20 built lines one empty long dots conjunct2 [OF prompt])+
qed

lemma monitor_tick_zero_interval:
  "lt \<le> current_time t \<Longrightarrow>
     monitor_tick (Some c) 0 lt t
       = (True, case analysis_raises t of Some e \<Rightarrow> Inl e | None \<Rightarrow> Inr (current_time t))"
  by (simp add: monitor_tick_def)

lemma run_background_monitor_zero_interval:
  "sorted (t0 # map current_time ts) \<Longrightarrow>
     (\<forall>b\<in>set (run_background_monitor (Some c) 0 t0 ts). b)
     \<and> ((\<forall>t\<in>set ts. analysis_raises t = None) \<longrightarrow>
          run_background_monitor (Some c) 0 t0 ts = replicate (length ts) True)"
proof (induction ts arbitrary: t0)
  case Nil
  then show ?case by simp
next
  case (Cons t ts)
  from Cons.prems have le: "t0 \<le> current_time t" and rest: "sorted (current_time t # map current_time ts)"
    by simp_all
  note step = monitor_tick_zero_interval [OF le, of c]
  note ih = Cons.IH [OF rest]
  show ?case
  proof (cases "analysis_raises t")
    case None
    with step ih show ?thesis by auto
  next
    case (Some e)
    with step show ?thesis by simp
  qed
qed

text \<open>
  C9, as stated: with \<open>ai_check_interval = 0\<close> the analysis is called on every
  iteration. The loop reads the wall clock. Here it starts at time 100 and the clock
  reads 90 on the first iteration and 100 on the second; the analysis is not called on
  the first iteration.
\<close>

theorem background_loop_clock_back_counterexample:
  "run_background_monitor
      (Some \<lparr>api_key = ''k'', base_url = ''https://api.groq.com/openai/v1''\<rparr>) 0 100
      [\<lparr>current_time = 90, analysis_raises = None\<rparr>, \<lparr>current_time = 100, analysis_raises = None\<rparr>]
     = [False, True]"
  by (simp add: monitor_tick_def)

text \<open>
  C9, amended. On one iteration the analysis is called exactly when a client is
  configured and the clock reading minus \<open>last_ai_check_time\<close> is at least
  \<open>ai_check_interval\<close>. So with a client and \<open>ai_check_interval = 0\<close> it is called
  exactly on the iterations whose clock reading is not before \<open>last_ai_check_time\<close>, and
  on every iteration of a loop whose clock readings never go back; when the interval
  exceeds the time elapsed since \<open>last_ai_check_time\<close> it is not called and
  \<open>last_ai_check_time\<close> stays; and when it was called and has returned,
  \<open>last_ai_check_time\<close> is the clock reading of that iteration.
\<close>

theorem background_loop_ai_schedule:
  "fst (monitor_tick ai_client iv lt t)
      = (ai_client \<noteq> None \<and> real_of_int iv \<le> current_time t - lt)
   \<and> fst (monitor_tick (Some c) 0 lt t) = (lt \<le> current_time t)
   \<and> (sorted (t0 # map current_time ts) \<longrightarrow>
      (\<forall>b\<in>set (run_background_monitor (Some c) 0 t0 ts). b)
      \<and> ((\<forall>t\<in>set ts. analysis_raises t = None) \<longrightarrow>
           run_background_monitor (Some c) 0 t0 ts = replicate (length ts) True))
   \<and> (current_time t - lt < real_of_int iv \<longrightarrow>
        monitor_tick ai_client iv lt t = (False, Inr lt))
   \<and> (monitor_tick ai_client iv lt t = (True, Inr lt') \<longrightarrow> lt' = current_time t)
   \<and> (fst (monitor_tick ai_client iv lt t) \<and> analysis_raises t = None \<longrightarrow>
        monitor_tick ai_client iv lt t = (True, Inr (current_time t)))"
proof -
  have g: "fst (monitor_tick ai_client iv lt t)
      = (ai_client \<noteq> None \<and> real_of_int iv \<le> current_time t - lt)"
    by (simp add: monitor_tick_def)
  have z: "fst (monitor_tick (Some c) 0 lt t) = (lt \<le> current_time t)"
    by (simp add: monitor_tick_def)
  have a: "sorted (t0 # map current_time ts) \<longrightarrow>
      (\<forall>b\<in>set (run_background_monitor (Some c) 0 t0 ts). b)
      \<and> ((\<forall>t\<in>set ts. analysis_raises t = None) \<longrightarrow>
           run_background_monitor (Some c) 0 t0 ts = replicate (length ts) True)"
    using run_background_monitor_zero_interval [of t0 ts c] by blast
  have c: "current_time t - lt < real_of_int iv \<longrightarrow>
        monitor_tick ai_client iv lt t = (False, Inr lt)"
    by (simp add: monitor_tick_def)
  have d: "monitor_tick ai_client iv lt t = (True, Inr lt') \<longrightarrow> lt' = current_time t"
    by (auto simp: monitor_tick_def split: if_splits option.splits)
  have e: "fst (monitor_tick ai_client iv lt t) \<and> analysis_raises t = None \<longrightarrow>
        monitor_tick ai_client iv lt t = (True, Inr (current_time t))"
    by (auto simp: monitor_tick_def split: if_splits)
  from g z a c d e show ?thesis by blast
qed

theorem background_loop_ai_schedule_witness:
  "sorted ((100::real) # map current_time
      [\<lparr>current_time = 110, analysis_raises = None\<rparr>, \<lparr>current_time = 120, analysis_raises = None\<rparr>])
   \<and> run_background_monitor
        (Some \<lparr>api_key = ''k'', base_url = ''https://api.groq.com/openai/v1''\<rparr>) 0 100
        [\<lparr>current_time = 110, analysis_raises = None\<rparr>, \<lparr>current_time = 120, analysis_raises = None\<rparr>]
      = [True, True]
   \<and> run_background_monitor
        (Some \<lparr>api_key = ''k'', base_url = ''https://api.groq.com/openai/v1''\<rparr>) 15 100
        [\<lparr>current_time = 110, analysis_raises = None\<rparr>, \<lparr>current_time = 120, analysis_raises = None\<rparr>,
         \<lparr>current_time = 130, analysis_raises = None\<rparr>]
      = [False, True, False]
   \<and> current_time \<lparr>current_time = 110, analysis_raises = None\<rparr> - 100 < real_of_int 15
   \<and> monitor_tick (Some \<lparr>api_key = ''k'', base_url = ''https://api.groq.com/openai/v1''\<rparr>) 15 100
        \<lparr>current_time = 110, analysis_raises = None\<rparr> = (False, Inr 100)
   \<and> monitor_tick (Some \<lparr>api_key = ''k'', base_url = ''https://api.groq.com/openai/v1''\<rparr>) 15 100
        \<lparr>current_time = 120, analysis_raises = None\<rparr> = (True, Inr 120)"
  using background_loop_ai_schedule [where ?t0.0 = 100
        and ts = "[\<lparr>current_time = 110, analysis_raises = None\<rparr>, \<lparr>current_time = 120, analysis_raises = None\<rparr>]"
        and c = "\<lparr>api_key = ''k'', base_url = ''https://api.groq.com/openai/v1''\<rparr>"
        and lt = 100 and t = "\<lparr>current_time = 110, analysis_raises = None\<rparr>" and iv = 15
        and ai_client = "Some \<lparr>api_key = ''k'', base_url = ''https://api.groq.com/openai/v1''\<rparr>"
        and lt' = 100]
    background_loop_ai_schedule [where ?t0.0 = 100 and ts = "[]"
        and c = "\<lparr>api_key = ''k'', base_url = ''https://api.groq.com/openai/v1''\<rparr>"
        and lt = 100 and t = "\<lparr>current_time = 120, analysis_raises = None\<rparr>" and iv = 15
        and ai_client = "Some \<lparr>api_key = ''k'', base_url = ''https://api.groq.com/openai/v1''\<rparr>"
        and lt' = 120]
  by (simp add: monitor_tick_def)

end
